theory Spec2Isabelle
  imports Main "HOL-Library.Word" "HOL-Library.Multiset"
begin

unbundle bit_operations_syntax

section \<open>Data model of Utils.cpp\<close>

text \<open>
  Machine types. An \<open>unsigned int\<close> is a 32-bit word whose arithmetic wraps, a
  \<open>float\<close> is carried as its 32-bit object representation (the driver never computes
  with floats, it only copies and prints them), and untyped memory (\<open>void*\<close>) is the
  list of bytes that starts at the pointer.
\<close>

type_synonym uint8 = "8 word"
type_synonym uint32 = "32 word"
type_synonym int32 = "32 word"
type_synonym float32 = "32 word"
type_synonym Memory = "uint8 list"

text \<open>
  \<open>armnn::DataType\<close> and \<open>OperandType\<close> are scoped enumerations over a 32-bit
  integer: a value of the type is its numeric code, the enumerators are named codes, and
  a \<open>switch\<close> with a \<open>default\<close> label sees every other code as well. The codes are
  those of the enumerations' declarations (armnn's Types.hpp and the neural-networks HAL
  1.0); no theorem below depends on the numbers beyond their being distinct.
\<close>

type_synonym DataType = "32 word"

definition Float32 :: DataType where
  "Float32 = 0"

definition QuantisedAsymm8 :: DataType where
  "QuantisedAsymm8 = 1"

definition Signed32 :: DataType where
  "Signed32 = 2"

type_synonym OperandType = "32 word"

definition TENSOR_FLOAT32 :: OperandType where
  "TENSOR_FLOAT32 = 3"

definition TENSOR_INT32 :: OperandType where
  "TENSOR_INT32 = 4"

definition TENSOR_QUANT8_ASYMM :: OperandType where
  "TENSOR_QUANT8_ASYMM = 5"

type_synonym TensorShape = "uint32 list"

record TensorInfo =
  shape :: TensorShape
  dataType :: DataType
  quantizationScale :: float32
  quantizationOffset :: int32

record ConstTensor =
  info :: TensorInfo
  memoryArea :: Memory

record Operand =
  operandType :: OperandType
  dimensions :: "uint32 list"
  scale :: float32
  zeroPoint :: int32

text \<open>
  \<open>GetNumDimensions()\<close> is the length of the shape and \<open>GetShape()[i]\<close> its
  \<open>i\<close>-th entry. The source indexes the shape only below its rank, except for
  \<open>GetShape()[0]\<close> in the header of \<open>DumpTensor\<close>, which a rank-0 tensor reads
  out of range; the model leaves that one number unspecified, as \<open>!\<close> does.
\<close>

definition GetNumDimensions :: "ConstTensor \<Rightarrow> uint32" where
  "GetNumDimensions tensor = of_nat (length (shape (info tensor)))"

definition GetShapeAt :: "ConstTensor \<Rightarrow> uint32 \<Rightarrow> uint32" where
  "GetShapeAt tensor i = shape (info tensor) ! unat i"

definition GetDataType :: "ConstTensor \<Rightarrow> DataType" where
  "GetDataType tensor = dataType (info tensor)"

text \<open>
  Modelled from the spec: \<open>armnn::TensorShape::GetNumElements\<close> is declared in
  the tensor library, not in Utils.cpp. Section 3 of the specification states the
  invariant "product of dimensions equals element count", so the count is the product of
  the dimension sizes.
\<close>

definition GetNumElements :: "ConstTensor \<Rightarrow> nat" where
  "GetNumElements tensor = prod_list (map unat (shape (info tensor)))"

subsection \<open>Typed reads of untyped memory\<close>

text \<open>
  \<open>reinterpret_cast<const ElementType*>(p)[i]\<close> reads the \<open>sizeof(ElementType)\<close>
  bytes at byte offset \<open>i * sizeof(ElementType)\<close>. Android's ABIs are little-endian, so
  the byte at the lowest address is the least significant one.
\<close>

definition uint8_at :: "Memory \<Rightarrow> nat \<Rightarrow> uint8" where
  "uint8_at m i = m ! i"

definition word32_of_bytes :: "uint8 \<Rightarrow> uint8 \<Rightarrow> uint8 \<Rightarrow> uint8 \<Rightarrow> 32 word" where
  "word32_of_bytes b0 b1 b2 b3 =
     ucast b0 OR push_bit 8 (ucast b1) OR push_bit 16 (ucast b2) OR push_bit 24 (ucast b3)"

definition word32_at :: "Memory \<Rightarrow> nat \<Rightarrow> 32 word" where
  "word32_at m i = word32_of_bytes (m ! (4 * i)) (m ! (4 * i + 1)) (m ! (4 * i + 2)) (m ! (4 * i + 3))"

definition bytes_of_word32 :: "32 word \<Rightarrow> uint8 list" where
  "bytes_of_word32 v = [ucast v, ucast (drop_bit 8 v), ucast (drop_bit 16 v), ucast (drop_bit 24 v)]"

subsection \<open>Output streams, files and the Android log\<close>

text \<open>
  What \<open>operator<<\<close> prints for the integer types: decimal digits, with a minus sign
  for a negative \<open>int32_t\<close>.
  What it prints for a \<open>float\<close> is decided by the C++ library's number formatting and
  is a parameter (\<open>showFloat\<close>) of every function that prints one.
\<close>

fun show_nat :: "nat \<Rightarrow> string" where
  "show_nat n =
     (if n < 10 then [''0123456789'' ! n]
      else show_nat (n div 10) @ [''0123456789'' ! (n mod 10)])"

definition show_int :: "int \<Rightarrow> string" where
  "show_int i = (if i < 0 then ''-'' @ show_nat (nat (- i)) else show_nat (nat i))"

definition show_uint32 :: "uint32 \<Rightarrow> string" where
  "show_uint32 x = show_nat (unat x)"

definition show_int32 :: "int32 \<Rightarrow> string" where
  "show_int32 x = show_int (sint x)"

definition endl :: string where
  "endl = [CHR 0x0A]"

text \<open>
  The world outside the process: the files that exist with their contents, which paths can
  be opened for writing (a path in a directory that does not exist cannot), and the lines
  logged so far. An \<open>std::ofstream\<close> is the text written through it and its state;
  a write to a stream that is not good does nothing. Errors of a write itself (a full disk)
  are not modelled: a stream that opened stays good. The text reaches the file when the
  stream is closed, which its destructor does on every way out of the function.
\<close>

datatype LogPriority = Verbose | Warning

record World =
  files :: "string \<rightharpoonup> string"
  writable :: "string \<Rightarrow> bool"
  logcat :: "(LogPriority \<times> string) list"

record ofstream =
  path :: string
  good :: bool
  written :: string

definition ofstream_open :: "World \<Rightarrow> string \<Rightarrow> World \<times> ofstream" where
  "ofstream_open world fileName =
     (if writable world fileName
      then (world\<lparr>files := (files world)(fileName \<mapsto> [])\<rparr>,
            \<lparr>path = fileName, good = True, written = []\<rparr>)
      else (world, \<lparr>path = fileName, good = False, written = []\<rparr>))"

definition put :: "ofstream \<Rightarrow> string \<Rightarrow> ofstream" where
  "put fileStream s = (if good fileStream then fileStream\<lparr>written := written fileStream @ s\<rparr> else fileStream)"

definition ofstream_close :: "World \<Rightarrow> ofstream \<Rightarrow> World" where
  "ofstream_close world fileStream =
     (if good fileStream
      then world\<lparr>files := (files world)(path fileStream \<mapsto> written fileStream)\<rparr>
      else world)"

definition ALOGW :: "World \<Rightarrow> string \<Rightarrow> World" where
  "ALOGW world msg = world\<lparr>logcat := logcat world @ [(Warning, msg)]\<rparr>"

definition ALOGV :: "World \<Rightarrow> string \<Rightarrow> World" where
  "ALOGV world msg = world\<lparr>logcat := logcat world @ [(Verbose, msg)]\<rparr>"

section \<open>Counted loops\<close>

text \<open>
  \<open>for (unsigned int i = first; i < n; i++) body\<close> over a state \<open>s\<close>: the counter is a
  32-bit word, and the loop ends because \<open>i < n\<close> keeps \<open>i + 1\<close> from wrapping.
\<close>

function forLoop :: "uint32 \<Rightarrow> uint32 \<Rightarrow> (uint32 \<Rightarrow> 's \<Rightarrow> 's) \<Rightarrow> 's \<Rightarrow> 's" where
  "forLoop i n body s = (if i < n then forLoop (i + 1) n body (body i s) else s)"
  by pat_completeness auto
termination
  by (relation "measure (\<lambda>(i, n, body, s). unat n - unat i)")
     (simp_all, unat_arith)

section \<open>DumpTensor\<close>

type_synonym DumpElementFunction = "ConstTensor \<Rightarrow> uint32 \<Rightarrow> ofstream \<Rightarrow> ofstream"

text \<open>
  The template \<open>DumpTensorElement<ElementType, PrintableType>\<close>: its three arguments
  here are the typed read that \<open>ElementType\<close> selects, the conversion to
  \<open>PrintableType\<close> and the \<open>operator<<\<close> of \<open>PrintableType\<close>.
\<close>

definition DumpTensorElement ::
  "(Memory \<Rightarrow> nat \<Rightarrow> 'e) \<Rightarrow> ('e \<Rightarrow> 'p) \<Rightarrow> ('p \<Rightarrow> string) \<Rightarrow> DumpElementFunction" where
  "DumpTensorElement elementAt static_cast shows tensor elementIndex fileStream =
     put (put fileStream (shows (static_cast (elementAt (memoryArea tensor) (unat elementIndex))))) '',''"

definition MemoryLayoutString :: "ConstTensor \<Rightarrow> string" where
  "MemoryLayoutString tensor =
     (if GetNumDimensions tensor = 4 then ''(BHWC) ''
      else if GetNumDimensions tensor = 3 then ''(HWC) ''
      else if GetNumDimensions tensor = 2 then ''(HW) ''
      else [])"

text \<open>The \<open>switch\<close> of \<open>DumpTensor\<close> on the data type; \<open>nullptr\<close> is \<open>None\<close>.\<close>

definition selectDumpElementFunction :: "(float32 \<Rightarrow> string) \<Rightarrow> DataType \<Rightarrow> DumpElementFunction option" where
  "selectDumpElementFunction showFloat dt =
     (if dt = Float32 then Some (DumpTensorElement word32_at id showFloat)
      else if dt = QuantisedAsymm8 then Some (DumpTensorElement uint8_at (ucast :: uint8 \<Rightarrow> uint32) show_uint32)
      else if dt = Signed32 then Some (DumpTensorElement word32_at id show_int32)
      else None)"

text \<open>
  The four nested loops of \<open>DumpTensor\<close>, innermost first. The state of each is the
  element counter \<open>e\<close> and the stream. The \<open>w\<close> loop steps \<open>e\<close> by \<open>channels\<close> after
  each element; the body of the \<open>c\<close> loop ends with the two rewinds of \<open>e\<close>, the
  second under the test \<open>c < channels\<close>, as the source has them.
\<close>

definition dumpWidthLoop ::
  "DumpElementFunction \<Rightarrow> ConstTensor \<Rightarrow> uint32 \<Rightarrow> uint32 \<Rightarrow> uint32 \<times> ofstream \<Rightarrow> uint32 \<times> ofstream" where
  "dumpWidthLoop dumpElementFunction tensor channels width =
     forLoop 0 width (\<lambda>w (e, fileStream). (e + channels, dumpElementFunction tensor e fileStream))"

definition dumpHeightLoop ::
  "DumpElementFunction \<Rightarrow> ConstTensor \<Rightarrow> uint32 \<Rightarrow> uint32 \<Rightarrow> uint32 \<Rightarrow> uint32 \<times> ofstream \<Rightarrow> uint32 \<times> ofstream" where
  "dumpHeightLoop dumpElementFunction tensor channels height width =
     forLoop 0 height (\<lambda>h s.
       case dumpWidthLoop dumpElementFunction tensor channels width s of
         (e, fileStream) \<Rightarrow> (e, put fileStream endl))"

definition dumpChannelLoop ::
  "DumpElementFunction \<Rightarrow> ConstTensor \<Rightarrow> uint32 \<Rightarrow> uint32 \<Rightarrow> uint32 \<Rightarrow> uint32 \<Rightarrow> uint32 \<times> ofstream \<Rightarrow> uint32 \<times> ofstream" where
  "dumpChannelLoop dumpElementFunction tensor numDimensions channels height width =
     forLoop 0 channels (\<lambda>c (e, fileStream).
       case dumpHeightLoop dumpElementFunction tensor channels height width
              (e, if numDimensions \<ge> 3
                  then put (put (put fileStream ''# Channel '') (show_uint32 c)) endl
                  else fileStream) of
         (e1, fileStream') \<Rightarrow>
           (let e2 = e1 - (channels - 1);
                e3 = (if c < channels then e2 - ((height * width) - 1) * channels else e2)
            in (e3, fileStream')))"

definition dumpBatchLoop ::
  "DumpElementFunction \<Rightarrow> ConstTensor \<Rightarrow> uint32 \<Rightarrow> uint32 \<Rightarrow> uint32 \<Rightarrow> uint32 \<Rightarrow> uint32 \<Rightarrow> uint32 \<times> ofstream \<Rightarrow> uint32 \<times> ofstream" where
  "dumpBatchLoop dumpElementFunction tensor numDimensions batch channels height width =
     forLoop 0 batch (\<lambda>b (e, fileStream).
       case dumpChannelLoop dumpElementFunction tensor numDimensions channels height width
              (e, if numDimensions \<ge> 4
                  then put (put (put fileStream ''# Batch '') (show_uint32 b)) endl
                  else fileStream) of
         (e', fileStream') \<Rightarrow> (e', put fileStream' endl))"

text \<open>The loop that prints the dimensions after the first one, \<open>d = 1 .. numDimensions - 1\<close>.\<close>

definition dumpDimensions :: "ConstTensor \<Rightarrow> uint32 \<Rightarrow> ofstream \<Rightarrow> ofstream" where
  "dumpDimensions tensor numDimensions =
     forLoop 1 numDimensions (\<lambda>d fileStream. put (put fileStream '','') (show_uint32 (GetShapeAt tensor d)))"

definition dumpFileName :: "string \<Rightarrow> string \<Rightarrow> string \<Rightarrow> string" where
  "dumpFileName dumpDir requestName tensorName =
     dumpDir @ ''/'' @ requestName @ ''_'' @ tensorName @ ''.dump''"

text \<open>
  The four extents that \<open>DumpTensor\<close> reads off the shape, by rank: the last three
  axes are height, width and channels, a fourth one before them is the batch.
\<close>

definition batchOf :: "ConstTensor \<Rightarrow> uint32" where
  "batchOf tensor =
     (let numDimensions = GetNumDimensions tensor
      in if numDimensions = 4 then GetShapeAt tensor (numDimensions - 4) else 1)"

definition heightOf :: "ConstTensor \<Rightarrow> uint32" where
  "heightOf tensor =
     (let numDimensions = GetNumDimensions tensor
      in if numDimensions \<ge> 3 then GetShapeAt tensor (numDimensions - 3)
         else if numDimensions \<ge> 2 then GetShapeAt tensor (numDimensions - 2) else 1)"

definition widthOf :: "ConstTensor \<Rightarrow> uint32" where
  "widthOf tensor =
     (let numDimensions = GetNumDimensions tensor
      in if numDimensions \<ge> 3 then GetShapeAt tensor (numDimensions - 2)
         else if numDimensions \<ge> 1 then GetShapeAt tensor (numDimensions - 1) else 0)"

definition channelsOf :: "ConstTensor \<Rightarrow> uint32" where
  "channelsOf tensor =
     (let numDimensions = GetNumDimensions tensor
      in if numDimensions \<ge> 3 then GetShapeAt tensor (numDimensions - 1) else 1)"

text \<open>The branch of \<open>DumpTensor\<close> taken when an element function was selected.\<close>

definition dumpElements :: "DumpElementFunction \<Rightarrow> ConstTensor \<Rightarrow> ofstream \<Rightarrow> ofstream" where
  "dumpElements dumpElementFunction tensor fileStream =
     (let numDimensions = GetNumDimensions tensor;
          batch = batchOf tensor;
          height = heightOf tensor;
          width = widthOf tensor;
          channels = channelsOf tensor;
          fs1 = put (put (put fileStream ''# Number of elements '') (show_nat (GetNumElements tensor))) endl;
          fs2 = put (put fs1 ''# Dimensions '') (MemoryLayoutString tensor);
          fs3 = put (put fs2 ''['') (show_uint32 (GetShapeAt tensor 0));
          fs4 = dumpDimensions tensor numDimensions fs3;
          fs5 = put (put fs4 '']'') endl;
          fs6 = snd (dumpBatchLoop dumpElementFunction tensor numDimensions batch channels height width (0, fs5))
      in put fs6 endl)"

definition DumpTensor ::
  "(float32 \<Rightarrow> string) \<Rightarrow> World \<Rightarrow> string \<Rightarrow> string \<Rightarrow> string \<Rightarrow> ConstTensor \<Rightarrow> World" where
  "DumpTensor showFloat world dumpDir requestName tensorName tensor =
     (let fileName = dumpFileName dumpDir requestName tensorName
      in case ofstream_open world fileName of
           (world1, fileStream) \<Rightarrow>
             if \<not> good fileStream
             then ofstream_close (ALOGW world1 (''Could not open file '' @ fileName @ '' for writing'')) fileStream
             else
               (let fileStream' =
                      (case selectDumpElementFunction showFloat (GetDataType tensor) of
                         Some dumpElementFunction \<Rightarrow> dumpElements dumpElementFunction tensor fileStream
                       | None \<Rightarrow>
                           put (put (put fileStream ''Cannot dump tensor elements: Unsupported data type '')
                                  (show_uint32 (GetDataType tensor))) endl);
                    world2 = (if \<not> good fileStream'
                              then ALOGW world1 (''An error occurred when writing to file '' @ fileName)
                              else world1)
                in ofstream_close world2 fileStream'))"

section \<open>ExportNetworkGraphToDotFile\<close>

text \<open>
  The optimized network is used through \<open>SerializeToDot\<close> only, which writes to the
  stream and returns a status; the model argument is used through its address only.
  The address is printed in upper-case hexadecimal, at least one digit.
\<close>

datatype Status = Success | Failure

record IOptimizedNetwork =
  SerializeToDot :: "ofstream \<Rightarrow> ofstream \<times> Status"

fun show_hex :: "nat \<Rightarrow> string" where
  "show_hex n =
     (if n < 16 then [''0123456789ABCDEF'' ! n]
      else show_hex (n div 16) @ [''0123456789ABCDEF'' ! (n mod 16)])"

definition ExportNetworkGraphToDotFile :: "World \<Rightarrow> IOptimizedNetwork \<Rightarrow> string \<Rightarrow> nat \<Rightarrow> World" where
  "ExportNetworkGraphToDotFile world optimizedNetwork dumpDir modelAddress =
     (if dumpDir = [] then world
      else
        (let modelAddressHexString = show_hex modelAddress;
             fileName = dumpDir @ ''/networkgraph_'' @ modelAddressHexString @ ''.dot'';
             world1 = ALOGV world (''Exporting the optimized network graph to file: '' @ fileName)
         in case ofstream_open world1 fileName of
              (world2, fileStream) \<Rightarrow>
                if \<not> good fileStream
                then ofstream_close (ALOGW world2 (''Could not open file '' @ fileName @ '' for writing'')) fileStream
                else
                  (case SerializeToDot optimizedNetwork fileStream of
                     (fileStream', status) \<Rightarrow>
                       ofstream_close
                         (if status \<noteq> Success
                          then ALOGW world2 (''An error occurred when writing to file '' @ fileName)
                          else world2)
                         fileStream')))"

section \<open>GetTensorInfoForOperand\<close>

text \<open>
  A \<open>throw\<close> is the left summand of the result; an \<open>assert\<close> that fails in a build
  with assertions aborts the process.
\<close>

datatype error = UnsupportedOperand OperandType | AssertionFailed

definition GetTensorInfoForOperand :: "Operand \<Rightarrow> error + TensorInfo" where
  "GetTensorInfoForOperand operand =
     (case (if operandType operand = TENSOR_FLOAT32 then Inr Float32
            else if operandType operand = TENSOR_QUANT8_ASYMM then Inr QuantisedAsymm8
            else if operandType operand = TENSOR_INT32 then Inr Signed32
            else Inl (UnsupportedOperand (operandType operand))) of
        Inl e \<Rightarrow> Inl e
      | Inr type \<Rightarrow>
          (let ret = \<lparr>shape = dimensions operand, dataType = type,
                      quantizationScale = 0, quantizationOffset = 0\<rparr>;
               ret = ret\<lparr>quantizationScale := scale operand\<rparr>;
               ret = ret\<lparr>quantizationOffset := zeroPoint operand\<rparr>
           in Inr ret))"

section \<open>SwizzleAndroidNn4dTensorToArmNn\<close>

type_synonym PermutationVector = "nat list"

text \<open>
  Modelled from the spec: \<open>armnnUtils::Permuted\<close> belongs to the tensor library and
  is not in Utils.cpp. Section 4.1 of the specification gives
  "destinationShape[i] = sourceShape[permutationVector[i]] for every axis i", section 3
  that "an empty permutation vector denotes identity". The same reordering is applied to
  coordinate tuples ("permuting the coordinate tuple the same way the axes were permuted").
\<close>

definition Permuted :: "'a list \<Rightarrow> PermutationVector \<Rightarrow> 'a list" where
  "Permuted srcShape mappings = (if mappings = [] then srcShape else map ((!) srcShape) mappings)"

text \<open>
  Modelled from the spec: the two notions that the algorithm of section 4.1 is written in,
  which the absent tensor library computes: the multi-indices of a shape "in
  row-major/lexicographic order", and the "flat row-major offset" of a multi-index, where
  (glossary) "the last (rightmost) axis varies fastest in memory".
\<close>

fun multiIndices :: "nat list \<Rightarrow> nat list list" where
  "multiIndices [] = [[]]"
| "multiIndices (d # ds) = concat (map (\<lambda>i. map ((#) i) (multiIndices ds)) [0..<d])"

fun flatOffset :: "nat list \<Rightarrow> nat list \<Rightarrow> nat" where
  "flatOffset (d # ds) (i # is) = i * prod_list ds + flatOffset ds is"
| "flatOffset _ _ = 0"

text \<open>
  Modelled from the spec: \<open>inverse(P)\<close> of the round-trip law in section 8, which no
  code under src/ computes. Entry \<open>k\<close> of the inverse is the position of \<open>k\<close> in
  the permutation vector.
\<close>

fun indexOf :: "'a list \<Rightarrow> 'a \<Rightarrow> nat" where
  "indexOf [] k = 0"
| "indexOf (x # xs) k = (if x = k then 0 else Suc (indexOf xs k))"

definition inversePermutation :: "PermutationVector \<Rightarrow> PermutationVector" where
  "inversePermutation mappings = map (indexOf mappings) [0..<length mappings]"

text \<open>
  Modelled from the spec: \<open>armnnUtils::Permute\<close> belongs to the tensor library and
  is not in Utils.cpp. Its first argument is the shape of the destination (the call in
  Utils.cpp passes \<open>Permuted(inTensorShape, mappings)\<close>), from which the source shape is
  the one that \<open>Permuted\<close> maps to it. Section 4.1 of the specification: "for every
  multi-index in the source tensor (iterated in row-major/lexicographic order over source
  axes), compute the corresponding multi-index in the destination tensor by permuting the
  coordinate tuple the same way the axes were permuted, convert both multi-indices to flat
  row-major offsets, and copy the element at the source flat offset to the destination
  flat offset." The destination buffer is the caller's; a write beyond its end is the
  caller's error and is left out of the model (list update does nothing there).
\<close>

definition Permute :: "TensorShape \<Rightarrow> PermutationVector \<Rightarrow> 'a list \<Rightarrow> 'a list \<Rightarrow> 'a list" where
  "Permute dstShape mappings src dst =
     (let dstDims = map unat dstShape;
          srcDims = Permuted dstDims (inversePermutation mappings)
      in fold (\<lambda>s d. d[flatOffset dstDims (Permuted s mappings) := src ! flatOffset srcDims s])
           (multiIndices srcDims) dst)"

text \<open>
  The template \<open>SwizzleAndroidNn4dTensorToArmNn<T>\<close> of the anonymous namespace:
  \<open>input\<close> and \<open>output\<close> are the arrays of \<open>T\<close> behind the two pointers.
\<close>

definition SwizzleAndroidNn4dTensorToArmNn_T ::
  "TensorShape \<Rightarrow> 'a list \<Rightarrow> 'a list \<Rightarrow> PermutationVector \<Rightarrow> 'a list" where
  "SwizzleAndroidNn4dTensorToArmNn_T inTensorShape inputData outputData mappings =
     Permute (Permuted inTensorShape mappings) mappings inputData outputData"

text \<open>
  \<open>static_cast<const float*>\<close> of untyped memory: the 32-bit objects that lie in it,
  and the memory after an array of them has been written at its start.
\<close>

definition load_word32s :: "Memory \<Rightarrow> 32 word list" where
  "load_word32s m = map (word32_at m) [0..<length m div 4]"

definition store_word32s :: "32 word list \<Rightarrow> Memory \<Rightarrow> Memory" where
  "store_word32s vs m = concat (map bytes_of_word32 vs) @ drop (4 * length vs) m"

text \<open>
  The public function. \<open>assertsEnabled\<close> says whether the build keeps \<open>assert\<close>
  (no \<open>NDEBUG\<close>); a failed assertion aborts, which the third component of the result
  records. The result is the world (for the log), the destination memory and how the call
  ended.
\<close>

definition SwizzleAndroidNn4dTensorToArmNn ::
  "bool \<Rightarrow> World \<Rightarrow> TensorInfo \<Rightarrow> Memory \<Rightarrow> Memory \<Rightarrow> PermutationVector \<Rightarrow> World \<times> Memory \<times> error option" where
  "SwizzleAndroidNn4dTensorToArmNn assertsEnabled world tensor input output mappings =
     (if assertsEnabled \<and> length (shape tensor) \<noteq> 4 then (world, output, Some AssertionFailed)
      else if dataType tensor = Float32
        then (world,
              store_word32s
                (SwizzleAndroidNn4dTensorToArmNn_T (shape tensor) (load_word32s input) (load_word32s output) mappings)
                output,
              None)
      else if dataType tensor = QuantisedAsymm8
        then (world, SwizzleAndroidNn4dTensorToArmNn_T (shape tensor) input output mappings, None)
      else (ALOGW world ''Unknown armnn::DataType for swizzling'', output,
            if assertsEnabled then Some AssertionFailed else None))"

section \<open>The text that DumpTensor writes, in closed form\<close>

text \<open>
  These definitions are not translations of source functions: they describe what the loops
  of \<open>DumpTensor\<close> write, and the lemmas on the loops below prove that the loops
  write exactly this. \<open>dumpedIndex\<close> is the element index that the counter \<open>e\<close> holds
  when the loops are at batch \<open>b\<close>, channel \<open>c\<close>, row \<open>h\<close> and column \<open>w\<close>.
\<close>

definition dumpedIndex :: "uint32 \<Rightarrow> uint32 \<Rightarrow> nat \<Rightarrow> nat \<Rightarrow> nat \<Rightarrow> nat \<Rightarrow> uint32" where
  "dumpedIndex channels width b c h w =
     of_nat b * channels + of_nat c + (of_nat h * width + of_nat w) * channels"

definition dumpedText ::
  "(uint32 \<Rightarrow> string) \<Rightarrow> uint32 \<Rightarrow> uint32 \<Rightarrow> uint32 \<Rightarrow> uint32 \<Rightarrow> uint32 \<Rightarrow> string" where
  "dumpedText element numDimensions batch channels height width =
     concat (map (\<lambda>b.
       (if numDimensions \<ge> 4 then ''# Batch '' @ show_nat b @ endl else []) @
       concat (map (\<lambda>c.
         (if numDimensions \<ge> 3 then ''# Channel '' @ show_nat c @ endl else []) @
         concat (map (\<lambda>h.
           concat (map (\<lambda>w. element (dumpedIndex channels width b c h w)) [0..<unat width]) @ endl)
           [0..<unat height]))
         [0..<unat channels]) @ endl)
       [0..<unat batch])"

definition dumpedHeader :: "ConstTensor \<Rightarrow> string" where
  "dumpedHeader tensor =
     ''# Number of elements '' @ show_nat (GetNumElements tensor) @ endl @
     ''# Dimensions '' @ MemoryLayoutString tensor @
     ''['' @ show_uint32 (GetShapeAt tensor 0) @
     concat (map (\<lambda>d. '','' @ show_uint32 (GetShapeAt tensor (of_nat d))) [1..<unat (GetNumDimensions tensor)]) @
     '']'' @ endl"

text \<open>The text of one element, by data type: what the selected element function appends.\<close>

definition elementText :: "(float32 \<Rightarrow> string) \<Rightarrow> ConstTensor \<Rightarrow> uint32 \<Rightarrow> string" where
  "elementText showFloat tensor e =
     (if GetDataType tensor = Float32 then showFloat (word32_at (memoryArea tensor) (unat e))
      else if GetDataType tensor = QuantisedAsymm8
        then show_uint32 (ucast (uint8_at (memoryArea tensor) (unat e)))
      else show_int32 (word32_at (memoryArea tensor) (unat e))) @ '',''"

section \<open>Concrete inputs\<close>

text \<open>
  A world in which the directory \<open>/data\<close> exists and is empty and nothing has been
  logged, and the tensors that the theorems below are evaluated on.
\<close>

definition exampleWorld :: World where
  "exampleWorld = \<lparr>files = Map.empty, writable = (\<lambda>p. take 6 p = ''/data/''), logcat = []\<rparr>"

definition batchTensor :: ConstTensor where
  "batchTensor =
     \<lparr>info = \<lparr>shape = [2, 1, 2, 1], dataType = QuantisedAsymm8,
               quantizationScale = 0, quantizationOffset = 0\<rparr>,
      memoryArea = [10, 11, 12, 13]\<rparr>"

definition quantisedTensor :: ConstTensor where
  "quantisedTensor =
     \<lparr>info = \<lparr>shape = [2, 2], dataType = QuantisedAsymm8,
               quantizationScale = 0, quantizationOffset = 0\<rparr>,
      memoryArea = [0, 65, 200, 255]\<rparr>"

definition unsupportedTensor :: ConstTensor where
  "unsupportedTensor =
     \<lparr>info = \<lparr>shape = [2], dataType = 7, quantizationScale = 0, quantizationOffset = 0\<rparr>,
      memoryArea = [1, 2]\<rparr>"

text \<open>
  The IEEE 754 single-precision patterns of 0.0, 1.0, ..., 11.0, and a printer that knows
  these twelve patterns only; they instantiate the float parameters in evaluations.
\<close>

definition smallFloats :: "float32 list" where
  "smallFloats =
     [0x00000000, 0x3F800000, 0x40000000, 0x40400000, 0x40800000, 0x40A00000,
      0x40C00000, 0x40E00000, 0x41000000, 0x41100000, 0x41200000, 0x41300000]"

definition showSmallFloat :: "float32 \<Rightarrow> string" where
  "showSmallFloat v = show_nat (indexOf smallFloats v)"

definition scenarioTensor :: "(nat \<Rightarrow> float32) \<Rightarrow> ConstTensor" where
  "scenarioTensor flt =
     \<lparr>info = \<lparr>shape = [1, 2, 2, 3], dataType = Float32,
               quantizationScale = 0, quantizationOffset = 0\<rparr>,
      memoryArea = concat (map bytes_of_word32 (map flt [0..<12]))\<rparr>"

text \<open>
  A rank-4 tensor descriptor of a given data type, and sixteen bytes of source memory (the
  32-bit values 1, 2, 3, 4) and of zeroed destination memory.
\<close>

definition swizzleInfo :: "DataType \<Rightarrow> TensorInfo" where
  "swizzleInfo dt = \<lparr>shape = [1, 1, 2, 2], dataType = dt, quantizationScale = 0, quantizationOffset = 0\<rparr>"

definition swizzleInput :: Memory where
  "swizzleInput = [1, 0, 0, 0, 2, 0, 0, 0, 3, 0, 0, 0, 4, 0, 0, 0]"

definition swizzleOutput :: Memory where
  "swizzleOutput = [0, 0, 0, 0, 0, 0, 0, 0, 0, 0, 0, 0, 0, 0, 0, 0]"

declare show_nat.simps [simp del]
declare show_hex.simps [simp del]
declare forLoop.simps [simp del]

section \<open>Streams and loops\<close>

lemma put_Nil: "put fs [] = fs"
  by (simp add: put_def)

lemma put_put: "put (put fs a) b = put fs (a @ b)"
  by (simp add: put_def)

lemma forLoop_upt:
  "i \<le> n \<Longrightarrow> forLoop i n body s = fold body (map of_nat [unat i..<unat n]) s"
proof (induction i n body s rule: forLoop.induct)
  case (1 i n body s)
  show ?case
  proof (cases "i < n")
    case True
    then have le: "i + 1 \<le> n" and suc: "unat (i + 1) = Suc (unat i)" and lt: "unat i < unat n"
      by unat_arith+
    have "forLoop i n body s = forLoop (i + 1) n body (body i s)"
      using True by (simp add: forLoop.simps [of i])
    also have "\<dots> = fold body (map of_nat [unat (i + 1)..<unat n]) (body i s)"
      using "1.IH" [OF True le] .
    also have "\<dots> = fold body (map of_nat [unat i..<unat n]) s"
      using lt by (simp add: suc upt_conv_Cons)
    finally show ?thesis .
  next
    case False
    with "1.prems" have "i = n" by simp
    then show ?thesis by (simp add: forLoop.simps [of n])
  qed
qed

lemma forLoop_steps:
  assumes "\<And>k. k < unat n \<Longrightarrow> body (of_nat k) (S k) = S (Suc k)"
  shows "forLoop 0 n body (S 0) = S (unat n)"
proof -
  have "m \<le> unat n \<Longrightarrow> fold body (map of_nat [0..<m]) (S 0) = S m" for m
    by (induction m) (simp_all add: assms)
  then show ?thesis by (simp add: forLoop_upt)
qed

lemma fold_put: "fold (\<lambda>x fs. put fs (t x)) xs fs = put fs (concat (map t xs))"
  by (induction xs arbitrary: fs) (simp_all add: put_Nil put_put)

lemma dumpDimensions_text:
  "dumpDimensions tensor n fs =
     put fs (concat (map (\<lambda>d. '','' @ show_uint32 (GetShapeAt tensor (of_nat d))) [1..<unat n]))"
proof (cases "1 \<le> n")
  case True
  then show ?thesis
    by (simp add: dumpDimensions_def forLoop_upt put_put fold_map comp_def fold_put)
next
  case False
  then have "n = 0" by unat_arith
  then show ?thesis
    by (simp add: dumpDimensions_def forLoop.simps [of 1] put_Nil)
qed

lemma dumpWidthLoop_text:
  assumes f: "\<And>e fs. f tensor e fs = put fs (g e)"
  shows "dumpWidthLoop f tensor channels width (e, fs) =
           (e + width * channels,
            put fs (concat (map (\<lambda>w. g (e + of_nat w * channels)) [0..<unat width])))"
proof -
  let ?S = "\<lambda>k. (e + of_nat k * channels, put fs (concat (map (\<lambda>w. g (e + of_nat w * channels)) [0..<k])))"
  have "forLoop 0 width (\<lambda>w (e, fileStream). (e + channels, f tensor e fileStream)) (?S 0) = ?S (unat width)"
    by (rule forLoop_steps) (simp add: f put_put algebra_simps)
  then show ?thesis
    by (simp add: dumpWidthLoop_def put_Nil)
qed

lemma dumpHeightLoop_text:
  assumes f: "\<And>e fs. f tensor e fs = put fs (g e)"
  shows "dumpHeightLoop f tensor channels height width (e, fs) =
           (e + height * (width * channels),
            put fs (concat (map (\<lambda>h.
              concat (map (\<lambda>w. g (e + (of_nat h * width + of_nat w) * channels)) [0..<unat width]) @ endl)
              [0..<unat height])))"
proof -
  let ?row = "\<lambda>h. concat (map (\<lambda>w. g (e + (of_nat h * width + of_nat w) * channels)) [0..<unat width]) @ endl"
  let ?S = "\<lambda>k. (e + of_nat k * (width * channels), put fs (concat (map ?row [0..<k])))"
  have "forLoop 0 height (\<lambda>h s. case dumpWidthLoop f tensor channels width s of
           (e, fileStream) \<Rightarrow> (e, put fileStream endl)) (?S 0) = ?S (unat height)"
    by (rule forLoop_steps) (simp add: dumpWidthLoop_text [of f, OF f] put_put algebra_simps)
  then show ?thesis
    by (simp add: dumpHeightLoop_def put_Nil)
qed

lemma unat_of_nat_below: "k < unat (n :: uint32) \<Longrightarrow> unat (of_nat k :: uint32) = k"
  by (simp add: le_unat_uoi [of k n])

lemma of_nat_below: "k < unat (n :: uint32) \<Longrightarrow> (of_nat k :: uint32) < n"
  by (simp add: word_less_nat_alt unat_of_nat_below)

text \<open>
  One pass of the channel loop leaves \<open>e\<close> one past where it started: the row loops
  advance it by \<open>height * width * channels\<close>, and the two rewinds, of which the second is
  always taken, take back all of that but one.
\<close>

lemma dumpChannelLoop_text:
  assumes f: "\<And>e fs. f tensor e fs = put fs (g e)"
  shows "dumpChannelLoop f tensor numDimensions channels height width (e, fs) =
           (e + channels,
            put fs (concat (map (\<lambda>c.
              (if numDimensions \<ge> 3 then ''# Channel '' @ show_nat c @ endl else []) @
              concat (map (\<lambda>h.
                concat (map (\<lambda>w. g (e + of_nat c + (of_nat h * width + of_nat w) * channels)) [0..<unat width]) @ endl)
                [0..<unat height]))
              [0..<unat channels])))"
proof -
  let ?chan = "\<lambda>c. (if numDimensions \<ge> 3 then ''# Channel '' @ show_nat c @ endl else []) @
              concat (map (\<lambda>h.
                concat (map (\<lambda>w. g (e + of_nat c + (of_nat h * width + of_nat w) * channels)) [0..<unat width]) @ endl)
                [0..<unat height])"
  let ?S = "\<lambda>k. (e + of_nat k, put fs (concat (map ?chan [0..<k])))"
  have "forLoop 0 channels (\<lambda>c (e, fileStream).
       case dumpHeightLoop f tensor channels height width
              (e, if numDimensions \<ge> 3
                  then put (put (put fileStream ''# Channel '') (show_uint32 c)) endl
                  else fileStream) of
         (e1, fileStream') \<Rightarrow>
           (let e2 = e1 - (channels - 1);
                e3 = (if c < channels then e2 - ((height * width) - 1) * channels else e2)
            in (e3, fileStream'))) (?S 0) = ?S (unat channels)"
    by (rule forLoop_steps)
       (simp add: dumpHeightLoop_text [of f, OF f] put_put of_nat_below unat_of_nat_below
          show_uint32_def Let_def algebra_simps)
  then show ?thesis
    by (simp add: dumpChannelLoop_def put_Nil)
qed

text \<open>
  So a batch advances \<open>e\<close> by \<open>channels\<close> only, and batch \<open>b\<close> starts at
  \<open>b * channels\<close>.
\<close>

lemma dumpBatchLoop_text:
  assumes f: "\<And>e fs. f tensor e fs = put fs (g e)"
  shows "dumpBatchLoop f tensor numDimensions batch channels height width (0, fs) =
           (batch * channels,
            put fs (dumpedText g numDimensions batch channels height width))"
proof -
  let ?batch = "\<lambda>b. (if numDimensions \<ge> 4 then ''# Batch '' @ show_nat b @ endl else []) @
       concat (map (\<lambda>c.
         (if numDimensions \<ge> 3 then ''# Channel '' @ show_nat c @ endl else []) @
         concat (map (\<lambda>h.
           concat (map (\<lambda>w. g (dumpedIndex channels width b c h w)) [0..<unat width]) @ endl)
           [0..<unat height]))
         [0..<unat channels]) @ endl"
  let ?S = "\<lambda>k. (of_nat k * channels, put fs (concat (map ?batch [0..<k])))"
  have "forLoop 0 batch (\<lambda>b (e, fileStream).
       case dumpChannelLoop f tensor numDimensions channels height width
              (e, if numDimensions \<ge> 4
                  then put (put (put fileStream ''# Batch '') (show_uint32 b)) endl
                  else fileStream) of
         (e', fileStream') \<Rightarrow> (e', put fileStream' endl)) (?S 0) = ?S (unat batch)"
    by (rule forLoop_steps)
       (simp add: dumpChannelLoop_text [of f, OF f] put_put unat_of_nat_below
          show_uint32_def dumpedIndex_def algebra_simps)
  then show ?thesis
    by (simp add: dumpBatchLoop_def dumpedText_def put_Nil)
qed

text \<open>
  The index the loops reach and the row-major offset of the same position differ by
  \<open>b * (height * width - 1) * channels\<close>: they agree in the first batch, and in every
  batch when \<open>height * width = 1\<close>.
\<close>

lemma dumpedIndex_row_major:
  "dumpedIndex channels width b c h w + of_nat b * (height * width - 1) * channels =
     ((of_nat b * height + of_nat h) * width + of_nat w) * channels + of_nat c"
  by (simp add: dumpedIndex_def algebra_simps)

lemma dumpedIndex_first_batch:
  "dumpedIndex channels width 0 c h w =
     ((0 * height + of_nat h) * width + of_nat w) * channels + of_nat c"
  by (simp add: dumpedIndex_def)

section \<open>What DumpTensor writes\<close>

lemma dumpElements_text:
  assumes f: "\<And>e fs. f tensor e fs = put fs (g e)"
  shows "dumpElements f tensor fs =
           put fs (dumpedHeader tensor @
                   dumpedText g (GetNumDimensions tensor) (batchOf tensor) (channelsOf tensor)
                     (heightOf tensor) (widthOf tensor) @ endl)"
  by (simp add: dumpElements_def Let_def dumpBatchLoop_text [of f, OF f] dumpDimensions_text
      put_put dumpedHeader_def)

lemma DumpTensorElement_text:
  "DumpTensorElement elementAt static_cast shows tensor e fs =
     put fs (shows (static_cast (elementAt (memoryArea tensor) (unat e))) @ '','')"
  by (simp add: DumpTensorElement_def put_put)

lemma DataType_distinct:
  "Float32 \<noteq> QuantisedAsymm8" "Float32 \<noteq> Signed32" "QuantisedAsymm8 \<noteq> Signed32"
  by (simp_all add: Float32_def QuantisedAsymm8_def Signed32_def)

lemma selectDumpElementFunction_text:
  assumes "selectDumpElementFunction showFloat (GetDataType tensor) = Some f"
  shows "f tensor e fs = put fs (elementText showFloat tensor e)"
  using assms DataType_distinct
  by (auto simp: selectDumpElementFunction_def elementText_def DumpTensorElement_text
        split: if_splits)

lemma selectDumpElementFunction_None:
  "selectDumpElementFunction showFloat dt = None \<longleftrightarrow> dt \<notin> {Float32, QuantisedAsymm8, Signed32}"
  by (simp add: selectDumpElementFunction_def)

text \<open>
  The whole of \<open>DumpTensor\<close> in one equation: when the file opens and the data type is
  one of the three, the file holds the header, the elements in the order of the loops and
  a final line break, and nothing is logged.
\<close>

lemma DumpTensor_text:
  assumes w: "writable world (dumpFileName dumpDir requestName tensorName)"
    and dt: "GetDataType tensor \<in> {Float32, QuantisedAsymm8, Signed32}"
  shows "DumpTensor showFloat world dumpDir requestName tensorName tensor =
           world\<lparr>files := (files world)(dumpFileName dumpDir requestName tensorName \<mapsto>
             dumpedHeader tensor @
             dumpedText (elementText showFloat tensor) (GetNumDimensions tensor) (batchOf tensor)
               (channelsOf tensor) (heightOf tensor) (widthOf tensor) @ endl)\<rparr>"
proof -
  from dt obtain f where sel: "selectDumpElementFunction showFloat (GetDataType tensor) = Some f"
    using selectDumpElementFunction_None [of showFloat "GetDataType tensor"] by auto
  have f: "\<And>e fs. f tensor e fs = put fs (elementText showFloat tensor e)"
    by (rule selectDumpElementFunction_text [OF sel])
  show ?thesis
    by (simp add: DumpTensor_def Let_def ofstream_open_def w sel dumpElements_text [of f, OF f]
        put_def ofstream_close_def)
qed

section \<open>Typed reads\<close>

lemma word32_of_bytes_of_word32:
  "word32_of_bytes (ucast v) (ucast (drop_bit 8 v)) (ucast (drop_bit 16 v)) (ucast (drop_bit 24 v)) = v"
  unfolding word32_of_bytes_def
proof (rule bit_word_eqI, goal_cases)
  case (1 n)
  then have n: "n < 32" by simp
  consider "n < 8" | "8 \<le> n" "n < 16" | "16 \<le> n" "n < 24" | "24 \<le> n"
    by linarith
  then show ?case
    using n by cases (auto simp: bit_simps)
qed

lemma length_bytes_of_word32: "length (bytes_of_word32 v) = 4"
  by (simp add: bytes_of_word32_def)

lemma word32_at_bytes:
  "i < length vs \<Longrightarrow> word32_at (concat (map bytes_of_word32 vs)) i = vs ! i"
proof (induction vs arbitrary: i)
  case Nil
  then show ?case by simp
next
  case (Cons v vs)
  show ?case
  proof (cases i)
    case 0
    then show ?thesis
      by (simp add: word32_at_def bytes_of_word32_def word32_of_bytes_of_word32)
  next
    case (Suc j)
    with Cons.prems have j: "j < length vs" by simp
    have "word32_at (concat (map bytes_of_word32 (v # vs))) (Suc j) =
          word32_at (concat (map bytes_of_word32 vs)) j"
      by (simp add: word32_at_def nth_append length_bytes_of_word32 add.commute)
    with Cons.IH [OF j] Suc show ?thesis by simp
  qed
qed

lemma unat_widen: "unat (ucast (x :: uint8) :: uint32) = unat x"
proof -
  have "unat x < 2 ^ 8"
    using unsigned_less [of x, where ?'a = nat] by simp
  then have "unat x < 2 ^ 32"
    by simp
  then show ?thesis
    by (simp add: unsigned_ucast_eq take_bit_nat_eq_self)
qed

section \<open>Decimal digits\<close>

lemma show_nat_digits: "set (show_nat n) \<subseteq> set ''0123456789''"
proof (induction n rule: show_nat.induct)
  case (1 n)
  have d: "k < 10 \<Longrightarrow> ''0123456789'' ! k \<in> set ''0123456789''" for k :: nat
    by (rule nth_mem) simp
  show ?case
  proof (cases "n < 10")
    case True
    then show ?thesis
      using d [of n] by (subst show_nat.simps) simp
  next
    case False
    have "n mod 10 < 10" by simp
    with False "1.IH" show ?thesis
      using d [of "n mod 10"] by (subst show_nat.simps) simp
  qed
qed

lemma show_nat_no_endl: "CHR 0x0A \<notin> set (show_nat n)"
  using show_nat_digits [of n] by auto

text \<open>The rules that evaluate a dump on a concrete tensor.\<close>

lemmas dump_eval =
  dumpFileName_def dumpedHeader_def dumpedText_def dumpedIndex_def elementText_def
  GetNumDimensions_def GetShapeAt_def GetNumElements_def GetDataType_def MemoryLayoutString_def
  batchOf_def channelsOf_def heightOf_def widthOf_def Float32_def QuantisedAsymm8_def Signed32_def
  show_uint32_def show_nat.simps uint8_at_def endl_def upt_conv_Cons

section \<open>Claims about DumpTensor\<close>

text \<open>
  C1. The claim: for a rank-4 tensor the element printed at batch \<open>b\<close>, channel \<open>c\<close>,
  row \<open>h\<close>, column \<open>w\<close> is the buffer element at \<open>((b*height + h)*width + w)*channels + c\<close>.
  The code does not do this from the second batch on: lemma \<open>dumpBatchLoop_text\<close> shows
  that batch \<open>b\<close> starts at element \<open>b * channels\<close>, not at
  \<open>b * height * width * channels\<close>. Evaluated on the tensor of shape [2,1,2,1] over the bytes
  10, 11, 12, 13: the row of batch 1 should hold the elements at offsets 2 and 3 (12 and
  13), and the file holds 11 and 12.
\<close>

theorem DumpTensor_second_batch:
  "files (DumpTensor showFloat exampleWorld ''/data'' ''r'' ''t'' batchTensor) ''/data/r_t.dump'' =
     Some (''# Number of elements 4'' @ endl @
           ''# Dimensions (BHWC) [2,1,2,1]'' @ endl @
           ''# Batch 0'' @ endl @
           ''# Channel 0'' @ endl @
           ''10,11,'' @ endl @
           endl @
           ''# Batch 1'' @ endl @
           ''# Channel 0'' @ endl @
           ''11,12,'' @ endl @
           endl @
           endl)
   \<and> uint8_at (memoryArea batchTensor) (((1 * 1 + 0) * 2 + 0) * 1 + 0) = 12
   \<and> uint8_at (memoryArea batchTensor) (((1 * 1 + 0) * 2 + 1) * 1 + 0) = 13"
proof -
  have w: "writable exampleWorld (dumpFileName ''/data'' ''r'' ''t'')"
    by (simp add: exampleWorld_def dumpFileName_def)
  have dt: "GetDataType batchTensor \<in> {Float32, QuantisedAsymm8, Signed32}"
    by (simp add: batchTensor_def GetDataType_def)
  show ?thesis
    by (simp add: DumpTensor_text [OF w dt]) (simp add: dump_eval batchTensor_def)
qed

text \<open>
  C2. Shape [1,2,2,3], 32-bit float, the buffer holding the floats of 0, 1, ..., 11 in
  order (\<open>flt i\<close> is the float of \<open>i\<close>, \<open>showFloat\<close> its printed form): the file
  holds the header with 12 elements, one batch block and three channel blocks, each a grid
  of two rows of two; channel 0 holds the values 0, 3 / 6, 9, channel 1 holds 1, 4 / 7, 10
  and channel 2 holds 2, 5 / 8, 11.
\<close>

theorem DumpTensor_scenario:
  assumes "writable world (dumpFileName dumpDir requestName tensorName)"
  shows "DumpTensor showFloat world dumpDir requestName tensorName (scenarioTensor flt) =
           world\<lparr>files := (files world)(dumpFileName dumpDir requestName tensorName \<mapsto>
             ''# Number of elements 12'' @ endl @
             ''# Dimensions (BHWC) [1,2,2,3]'' @ endl @
             ''# Batch 0'' @ endl @
             ''# Channel 0'' @ endl @
             showFloat (flt 0) @ '','' @ showFloat (flt 3) @ '','' @ endl @
             showFloat (flt 6) @ '','' @ showFloat (flt 9) @ '','' @ endl @
             ''# Channel 1'' @ endl @
             showFloat (flt 1) @ '','' @ showFloat (flt 4) @ '','' @ endl @
             showFloat (flt 7) @ '','' @ showFloat (flt 10) @ '','' @ endl @
             ''# Channel 2'' @ endl @
             showFloat (flt 2) @ '','' @ showFloat (flt 5) @ '','' @ endl @
             showFloat (flt 8) @ '','' @ showFloat (flt 11) @ '','' @ endl @
             endl @
             endl)\<rparr>"
proof -
  have dt: "GetDataType (scenarioTensor flt) \<in> {Float32, QuantisedAsymm8, Signed32}"
    by (simp add: scenarioTensor_def GetDataType_def)
  have rd: "word32_at (memoryArea (scenarioTensor flt)) i = flt i" if "i < 12" for i
    using that word32_at_bytes [of i "map flt [0..<12]"] by (simp add: scenarioTensor_def)
  have el: "elementText showFloat (scenarioTensor flt) e = showFloat (flt (unat e)) @ '',''"
    if "unat e < 12" for e
    using that by (simp add: elementText_def rd) (simp add: scenarioTensor_def GetDataType_def)
  have dims: "GetNumDimensions (scenarioTensor flt) = 4" "batchOf (scenarioTensor flt) = 1"
    "channelsOf (scenarioTensor flt) = 3" "heightOf (scenarioTensor flt) = 2"
    "widthOf (scenarioTensor flt) = 2"
    by (simp_all add: dump_eval scenarioTensor_def)
  have body: "dumpedText (elementText showFloat (scenarioTensor flt)) 4 1 3 2 2 =
             ''# Batch 0'' @ endl @
             ''# Channel 0'' @ endl @
             showFloat (flt 0) @ '','' @ showFloat (flt 3) @ '','' @ endl @
             showFloat (flt 6) @ '','' @ showFloat (flt 9) @ '','' @ endl @
             ''# Channel 1'' @ endl @
             showFloat (flt 1) @ '','' @ showFloat (flt 4) @ '','' @ endl @
             showFloat (flt 7) @ '','' @ showFloat (flt 10) @ '','' @ endl @
             ''# Channel 2'' @ endl @
             showFloat (flt 2) @ '','' @ showFloat (flt 5) @ '','' @ endl @
             showFloat (flt 8) @ '','' @ showFloat (flt 11) @ '','' @ endl @
             endl"
    by (simp add: dumpedText_def dumpedIndex_def upt_conv_Cons el show_nat.simps)
  have header: "dumpedHeader (scenarioTensor flt) =
             ''# Number of elements 12'' @ endl @ ''# Dimensions (BHWC) [1,2,2,3]'' @ endl"
    by (simp add: dump_eval scenarioTensor_def)
  show ?thesis
    by (simp add: DumpTensor_text [OF assms dt] dims body header)
qed

theorem DumpTensor_scenario_witness:
  "writable exampleWorld (dumpFileName ''/data'' ''r'' ''t'') \<and>
   DumpTensor showSmallFloat exampleWorld ''/data'' ''r'' ''t'' (scenarioTensor ((!) smallFloats)) =
     exampleWorld\<lparr>files := [''/data/r_t.dump'' \<mapsto>
       ''# Number of elements 12'' @ endl @
       ''# Dimensions (BHWC) [1,2,2,3]'' @ endl @
       ''# Batch 0'' @ endl @
       ''# Channel 0'' @ endl @
       ''0,3,'' @ endl @
       ''6,9,'' @ endl @
       ''# Channel 1'' @ endl @
       ''1,4,'' @ endl @
       ''7,10,'' @ endl @
       ''# Channel 2'' @ endl @
       ''2,5,'' @ endl @
       ''8,11,'' @ endl @
       endl @
       endl]\<rparr>"
proof -
  have w: "writable exampleWorld (dumpFileName ''/data'' ''r'' ''t'')"
    by (simp add: exampleWorld_def dumpFileName_def)
  have f: "showSmallFloat (smallFloats ! 0) = ''0''" "showSmallFloat (smallFloats ! Suc 0) = ''1''"
    "showSmallFloat (smallFloats ! 2) = ''2''" "showSmallFloat (smallFloats ! 3) = ''3''"
    "showSmallFloat (smallFloats ! 4) = ''4''" "showSmallFloat (smallFloats ! 5) = ''5''"
    "showSmallFloat (smallFloats ! 6) = ''6''" "showSmallFloat (smallFloats ! 7) = ''7''"
    "showSmallFloat (smallFloats ! 8) = ''8''" "showSmallFloat (smallFloats ! 9) = ''9''"
    "showSmallFloat (smallFloats ! 10) = ''10''" "showSmallFloat (smallFloats ! 11) = ''11''"
    by (simp_all add: showSmallFloat_def smallFloats_def show_nat.simps)
  show ?thesis
    using w DumpTensor_scenario [OF w, of showSmallFloat "(!) smallFloats"]
    by (simp add: f exampleWorld_def dumpFileName_def)
qed

text \<open>
  C5. For a tensor of the 8-bit quantised type every element is printed as the decimal
  digits of its value between 0 and 255, followed by a comma: the element text is
  \<open>show_nat\<close> of the byte's value, which holds digits only, never the byte as a
  character.
\<close>

theorem DumpTensor_quantised_elements:
  assumes "writable world (dumpFileName dumpDir requestName tensorName)"
    and "GetDataType tensor = QuantisedAsymm8"
  shows "DumpTensor showFloat world dumpDir requestName tensorName tensor =
           world\<lparr>files := (files world)(dumpFileName dumpDir requestName tensorName \<mapsto>
             dumpedHeader tensor @
             dumpedText (\<lambda>e. show_nat (unat (uint8_at (memoryArea tensor) (unat e))) @ '','')
               (GetNumDimensions tensor) (batchOf tensor) (channelsOf tensor) (heightOf tensor)
               (widthOf tensor) @ endl)\<rparr>
         \<and> (\<forall>e. set (show_nat (unat (uint8_at (memoryArea tensor) (unat e)))) \<subseteq> set ''0123456789''
                \<and> unat (uint8_at (memoryArea tensor) (unat e)) \<le> 255)"
proof -
  have dt: "GetDataType tensor \<in> {Float32, QuantisedAsymm8, Signed32}"
    using assms(2) by simp
  have el: "elementText showFloat tensor =
              (\<lambda>e. show_nat (unat (uint8_at (memoryArea tensor) (unat e))) @ '','')"
    using assms(2) DataType_distinct
    by (auto simp: elementText_def show_uint32_def unat_widen)
  have bound: "unat (x :: uint8) \<le> 255" for x
    using unsigned_less [of x, where ?'a = nat] by simp
  show ?thesis
    using show_nat_digits bound by (simp add: DumpTensor_text [OF assms(1) dt] el)
qed

theorem DumpTensor_quantised_elements_witness:
  "writable exampleWorld (dumpFileName ''/data'' ''r'' ''t'') \<and>
   GetDataType quantisedTensor = QuantisedAsymm8 \<and>
   DumpTensor showSmallFloat exampleWorld ''/data'' ''r'' ''t'' quantisedTensor =
     exampleWorld\<lparr>files := [''/data/r_t.dump'' \<mapsto>
       ''# Number of elements 4'' @ endl @
       ''# Dimensions (HW) [2,2]'' @ endl @
       ''0,65,'' @ endl @
       ''200,255,'' @ endl @
       endl @
       endl]\<rparr>"
proof -
  have w: "writable exampleWorld (dumpFileName ''/data'' ''r'' ''t'')"
    by (simp add: exampleWorld_def dumpFileName_def)
  have dt: "GetDataType quantisedTensor = QuantisedAsymm8"
    by (simp add: quantisedTensor_def GetDataType_def)
  have "DumpTensor showSmallFloat exampleWorld ''/data'' ''r'' ''t'' quantisedTensor =
     exampleWorld\<lparr>files := (files exampleWorld)(dumpFileName ''/data'' ''r'' ''t'' \<mapsto>
             dumpedHeader quantisedTensor @
             dumpedText (\<lambda>e. show_nat (unat (uint8_at (memoryArea quantisedTensor) (unat e))) @ '','')
               (GetNumDimensions quantisedTensor) (batchOf quantisedTensor) (channelsOf quantisedTensor)
               (heightOf quantisedTensor) (widthOf quantisedTensor) @ endl)\<rparr>"
    using DumpTensor_quantised_elements [OF w dt, of showSmallFloat] by blast
  then show ?thesis
    using w dt by (simp add: dump_eval quantisedTensor_def exampleWorld_def)
qed

text \<open>
  C6. For a tensor whose data type is none of the three supported ones, \<open>DumpTensor\<close>
  writes one line, which names the type's numeric code, and nothing else: the file holds
  that line, the line has no line break before its end, and nothing is logged.
\<close>

theorem DumpTensor_unsupported_type:
  assumes "writable world (dumpFileName dumpDir requestName tensorName)"
    and "GetDataType tensor \<notin> {Float32, QuantisedAsymm8, Signed32}"
  shows "DumpTensor showFloat world dumpDir requestName tensorName tensor =
           world\<lparr>files := (files world)(dumpFileName dumpDir requestName tensorName \<mapsto>
             ''Cannot dump tensor elements: Unsupported data type '' @
             show_nat (unat (GetDataType tensor)) @ endl)\<rparr>
         \<and> CHR 0x0A \<notin> set (''Cannot dump tensor elements: Unsupported data type '' @
                              show_nat (unat (GetDataType tensor)))"
proof -
  have "selectDumpElementFunction showFloat (GetDataType tensor) = None"
    using assms(2) by (simp add: selectDumpElementFunction_None)
  then show ?thesis
    using assms(1) show_nat_no_endl [of "unat (GetDataType tensor)"]
    by (simp add: DumpTensor_def Let_def ofstream_open_def put_def ofstream_close_def show_uint32_def)
qed

theorem DumpTensor_unsupported_type_witness:
  "writable exampleWorld (dumpFileName ''/data'' ''r'' ''t'') \<and>
   GetDataType unsupportedTensor \<notin> {Float32, QuantisedAsymm8, Signed32} \<and>
   DumpTensor showSmallFloat exampleWorld ''/data'' ''r'' ''t'' unsupportedTensor =
     exampleWorld\<lparr>files := [''/data/r_t.dump'' \<mapsto>
       ''Cannot dump tensor elements: Unsupported data type 7'' @ endl]\<rparr>"
proof -
  have w: "writable exampleWorld (dumpFileName ''/data'' ''r'' ''t'')"
    by (simp add: exampleWorld_def dumpFileName_def)
  have dt: "GetDataType unsupportedTensor \<notin> {Float32, QuantisedAsymm8, Signed32}"
    by (simp add: unsupportedTensor_def GetDataType_def Float32_def QuantisedAsymm8_def Signed32_def)
  show ?thesis
    using w dt DumpTensor_unsupported_type [OF w dt, of showSmallFloat]
    by (simp add: dump_eval unsupportedTensor_def exampleWorld_def)
qed

text \<open>
  C7. When the output file cannot be opened, \<open>DumpTensor\<close> logs one warning and does
  nothing else: no file is created or changed, and the call returns (the function has no
  other way of ending).
\<close>

theorem DumpTensor_open_failure:
  assumes "\<not> writable world (dumpFileName dumpDir requestName tensorName)"
  shows "DumpTensor showFloat world dumpDir requestName tensorName tensor =
           world\<lparr>logcat := logcat world @
             [(Warning, ''Could not open file '' @ dumpFileName dumpDir requestName tensorName @
                        '' for writing'')]\<rparr>"
  using assms
  by (simp add: DumpTensor_def Let_def ofstream_open_def ofstream_close_def ALOGW_def)

theorem DumpTensor_open_failure_witness:
  "\<not> writable exampleWorld (dumpFileName ''/nodir'' ''r'' ''t'') \<and>
   DumpTensor showSmallFloat exampleWorld ''/nodir'' ''r'' ''t'' batchTensor =
     exampleWorld\<lparr>logcat := [(Warning, ''Could not open file /nodir/r_t.dump for writing'')]\<rparr>"
proof -
  have w: "\<not> writable exampleWorld (dumpFileName ''/nodir'' ''r'' ''t'')"
    by (simp add: exampleWorld_def dumpFileName_def)
  show ?thesis
    using w DumpTensor_open_failure [OF w, of showSmallFloat batchTensor]
    by (simp add: dumpFileName_def exampleWorld_def)
qed

text \<open>
  C8. For a tensor of a supported type the file starts with the line
  \<open># Number of elements n\<close>, where \<open>n\<close> is the product of the dimension sizes.
\<close>

theorem DumpTensor_header_count:
  assumes "writable world (dumpFileName dumpDir requestName tensorName)"
    and "GetDataType tensor \<in> {Float32, QuantisedAsymm8, Signed32}"
  shows "\<exists>rest. files (DumpTensor showFloat world dumpDir requestName tensorName tensor)
                  (dumpFileName dumpDir requestName tensorName) =
                Some (''# Number of elements '' @
                      show_nat (prod_list (map unat (shape (info tensor)))) @ endl @ rest)"
  by (simp add: DumpTensor_text [OF assms] dumpedHeader_def GetNumElements_def)

theorem DumpTensor_header_count_witness:
  "writable exampleWorld (dumpFileName ''/data'' ''r'' ''t'') \<and>
   GetDataType batchTensor \<in> {Float32, QuantisedAsymm8, Signed32} \<and>
   (\<exists>rest. files (DumpTensor showSmallFloat exampleWorld ''/data'' ''r'' ''t'' batchTensor)
             ''/data/r_t.dump'' =
           Some (''# Number of elements 4'' @ endl @ rest))"
proof -
  have w: "writable exampleWorld (dumpFileName ''/data'' ''r'' ''t'')"
    by (simp add: exampleWorld_def dumpFileName_def)
  have dt: "GetDataType batchTensor \<in> {Float32, QuantisedAsymm8, Signed32}"
    by (simp add: batchTensor_def GetDataType_def)
  show ?thesis
    using w dt DumpTensor_header_count [OF w dt, of showSmallFloat]
    by (simp add: dumpFileName_def batchTensor_def show_nat.simps)
qed

section \<open>Claims about the other functions\<close>

text \<open>
  C9. \<open>GetTensorInfoForOperand\<close> throws \<open>UnsupportedOperand\<close>, carrying the operand's
  type, for every operand type other than the three tensor types, and returns no
  descriptor then; for the three it returns a descriptor with the matching data type.
\<close>

theorem GetTensorInfoForOperand_types:
  "(operandType operand \<notin> {TENSOR_FLOAT32, TENSOR_QUANT8_ASYMM, TENSOR_INT32} \<longrightarrow>
      GetTensorInfoForOperand operand = Inl (UnsupportedOperand (operandType operand))) \<and>
   (operandType operand = TENSOR_FLOAT32 \<longrightarrow>
      (\<exists>ret. GetTensorInfoForOperand operand = Inr ret \<and> dataType ret = Float32)) \<and>
   (operandType operand = TENSOR_QUANT8_ASYMM \<longrightarrow>
      (\<exists>ret. GetTensorInfoForOperand operand = Inr ret \<and> dataType ret = QuantisedAsymm8)) \<and>
   (operandType operand = TENSOR_INT32 \<longrightarrow>
      (\<exists>ret. GetTensorInfoForOperand operand = Inr ret \<and> dataType ret = Signed32))"
  by (simp add: GetTensorInfoForOperand_def Let_def TENSOR_FLOAT32_def TENSOR_QUANT8_ASYMM_def
      TENSOR_INT32_def)

theorem GetTensorInfoForOperand_types_witness:
  "GetTensorInfoForOperand \<lparr>operandType = 0, dimensions = [2, 3], scale = 0, zeroPoint = 0\<rparr> =
     Inl (UnsupportedOperand 0) \<and>
   GetTensorInfoForOperand \<lparr>operandType = TENSOR_FLOAT32, dimensions = [2, 3], scale = 0, zeroPoint = 0\<rparr> =
     Inr \<lparr>shape = [2, 3], dataType = Float32, quantizationScale = 0, quantizationOffset = 0\<rparr> \<and>
   GetTensorInfoForOperand \<lparr>operandType = TENSOR_QUANT8_ASYMM, dimensions = [4], scale = 5, zeroPoint = 128\<rparr> =
     Inr \<lparr>shape = [4], dataType = QuantisedAsymm8, quantizationScale = 5, quantizationOffset = 128\<rparr> \<and>
   GetTensorInfoForOperand \<lparr>operandType = TENSOR_INT32, dimensions = [4], scale = 0, zeroPoint = 0\<rparr> =
     Inr \<lparr>shape = [4], dataType = Signed32, quantizationScale = 0, quantizationOffset = 0\<rparr>"
  using GetTensorInfoForOperand_types [of "\<lparr>operandType = 0, dimensions = [2, 3], scale = 0, zeroPoint = 0\<rparr>"]
    GetTensorInfoForOperand_types [of "\<lparr>operandType = TENSOR_FLOAT32, dimensions = [2, 3], scale = 0, zeroPoint = 0\<rparr>"]
    GetTensorInfoForOperand_types [of "\<lparr>operandType = TENSOR_QUANT8_ASYMM, dimensions = [4], scale = 5, zeroPoint = 128\<rparr>"]
    GetTensorInfoForOperand_types [of "\<lparr>operandType = TENSOR_INT32, dimensions = [4], scale = 0, zeroPoint = 0\<rparr>"]
  by (simp add: GetTensorInfoForOperand_def Let_def TENSOR_FLOAT32_def TENSOR_QUANT8_ASYMM_def
      TENSOR_INT32_def)

text \<open>
  C10. With an empty dump directory \<open>ExportNetworkGraphToDotFile\<close> returns at once:
  the world is unchanged, so no file is opened, created, truncated or written and nothing
  is logged, whatever the network and the model.
\<close>

theorem ExportNetworkGraphToDotFile_empty_dir:
  "ExportNetworkGraphToDotFile world optimizedNetwork [] modelAddress = world"
  by (simp add: ExportNetworkGraphToDotFile_def)

section \<open>Multi-indices and flat offsets\<close>

lemma multiIndices_set: "set (multiIndices A) = {s. list_all2 (<) s A}"
proof (induction A)
  case Nil
  show ?case by auto
next
  case (Cons d ds)
  show ?case
    by (auto simp: Cons list_all2_Cons2)
qed

lemma flatOffset_less: "list_all2 (<) s A \<Longrightarrow> flatOffset A s < prod_list A"
proof (induction s A rule: list_all2_induct)
  case Nil
  show ?case by simp
next
  case (Cons i s d A)
  have "i * prod_list A + flatOffset A s < i * prod_list A + prod_list A"
    using Cons.IH by simp
  also have "\<dots> = Suc i * prod_list A"
    by simp
  also have "\<dots> \<le> d * prod_list A"
    using Cons.hyps(1) by (intro mult_le_mono1) simp
  finally show ?case by simp
qed

lemma flatOffset_inj:
  "list_all2 (<) s A \<Longrightarrow> list_all2 (<) t A \<Longrightarrow> flatOffset A s = flatOffset A t \<Longrightarrow> s = t"
proof (induction A arbitrary: s t)
  case Nil
  then show ?case by simp
next
  case (Cons d ds)
  from Cons.prems(1) obtain i s' where s: "s = i # s'" "list_all2 (<) s' ds"
    by (auto simp: list_all2_Cons2)
  from Cons.prems(2) obtain j t' where t: "t = j # t'" "list_all2 (<) t' ds"
    by (auto simp: list_all2_Cons2)
  let ?p = "prod_list ds"
  have rs: "flatOffset ds s' < ?p" and rt: "flatOffset ds t' < ?p"
    using s t by (simp_all add: flatOffset_less)
  have eq: "i * ?p + flatOffset ds s' = j * ?p + flatOffset ds t'"
    using Cons.prems(3) s t by simp
  have "(i * ?p + flatOffset ds s') div ?p = i" "(j * ?p + flatOffset ds t') div ?p = j"
    using rs rt by simp_all
  with eq have ij: "i = j" by simp
  with eq have "flatOffset ds s' = flatOffset ds t'" by simp
  with Cons.IH [OF s(2) t(2)] ij s t show ?case by simp
qed

lemma flatOffset_surj:
  "k < prod_list A \<Longrightarrow> \<exists>s. list_all2 (<) s A \<and> flatOffset A s = k"
proof (induction A arbitrary: k)
  case Nil
  then show ?case by simp
next
  case (Cons d ds)
  let ?p = "prod_list ds"
  from Cons.prems have k: "k < d * ?p" by simp
  then have p: "0 < ?p" by (cases "?p = 0") simp_all
  have i: "k div ?p < d"
    using k p by (simp add: less_mult_imp_div_less)
  have "k mod ?p < ?p" using p by simp
  from Cons.IH [OF this] obtain t where t: "list_all2 (<) t ds" "flatOffset ds t = k mod ?p"
    by blast
  have "list_all2 (<) (k div ?p # t) (d # ds) \<and> flatOffset (d # ds) (k div ?p # t) = k"
    using i t by simp
  then show ?case by blast
qed

section \<open>Writing through an injective key\<close>

lemma fold_update_length:
  "length (fold (\<lambda>x d. d[key x := val x]) xs d) = length d"
  by (induction xs arbitrary: d) simp_all

lemma fold_update_nth:
  "inj_on key (set xs) \<Longrightarrow> x \<in> set xs \<Longrightarrow> key x < length d \<Longrightarrow>
     fold (\<lambda>x d. d[key x := val x]) xs d ! key x = val x"
proof (induction xs rule: rev_induct)
  case Nil
  then show ?case by simp
next
  case (snoc y ys)
  let ?d = "fold (\<lambda>x d. d[key x := val x]) ys d"
  have len: "key x < length ?d"
    using snoc.prems(3) by (simp add: fold_update_length)
  show ?case
  proof (cases "key y = key x")
    case True
    with snoc.prems(1,2) have "y = x"
      by (auto dest: inj_onD)
    with len show ?thesis by simp
  next
    case False
    with snoc.prems(2) have x: "x \<in> set ys" by auto
    have "inj_on key (set ys)"
      using snoc.prems(1) by (auto intro: inj_on_subset)
    from snoc.IH [OF this x snoc.prems(3)] False show ?thesis by simp
  qed
qed

section \<open>Permutation vectors\<close>

lemma indexOf_nth: "k \<in> set P \<Longrightarrow> P ! indexOf P k = k \<and> indexOf P k < length P"
  by (induction P) auto

lemma indexOf_of_nth: "distinct P \<Longrightarrow> i < length P \<Longrightarrow> indexOf P (P ! i) = i"
proof (induction P arbitrary: i)
  case Nil
  then show ?case by simp
next
  case (Cons x xs)
  then show ?case by (cases i) auto
qed

lemma permutation_length:
  assumes "distinct P" "set P = {0..<n}"
  shows "length P = n"
  using assms distinct_card [of P] by simp

lemma length_inversePermutation: "length (inversePermutation P) = length P"
  by (simp add: inversePermutation_def)

lemma inversePermutation_nth:
  assumes "distinct P" "set P = {0..<n}" "k < n"
  shows "inversePermutation P ! k = indexOf P k" "P ! (inversePermutation P ! k) = k"
    "inversePermutation P ! k < n"
  using assms indexOf_nth [of k P] permutation_length [OF assms(1,2)]
  by (simp_all add: inversePermutation_def)

lemma inversePermutation_of_nth:
  assumes "distinct P" "set P = {0..<n}" "i < n"
  shows "inversePermutation P ! (P ! i) = i"
proof -
  have len: "length P = n" by (rule permutation_length [OF assms(1,2)])
  then have "P ! i \<in> set P" using assms(3) by simp
  then have "P ! i < n" using assms(2) by simp
  then show ?thesis
    using assms len by (simp add: inversePermutation_def indexOf_of_nth)
qed

lemma inversePermutation_permutation:
  assumes "distinct P" "set P = {0..<n}"
  shows "distinct (inversePermutation P)" "set (inversePermutation P) = {0..<n}"
proof -
  have len: "length P = n" by (rule permutation_length [OF assms])
  have leni: "length (inversePermutation P) = n"
    by (simp add: length_inversePermutation len)
  show "distinct (inversePermutation P)"
  proof (unfold distinct_conv_nth, intro allI impI)
    fix i j
    assume "i < length (inversePermutation P)" "j < length (inversePermutation P)" "i \<noteq> j"
    then have i: "i < n" and j: "j < n" and ne: "i \<noteq> j" using leni by simp_all
    show "inversePermutation P ! i \<noteq> inversePermutation P ! j"
    proof
      assume "inversePermutation P ! i = inversePermutation P ! j"
      then have "P ! (inversePermutation P ! i) = P ! (inversePermutation P ! j)" by simp
      then show False
        using inversePermutation_nth(2) [OF assms i] inversePermutation_nth(2) [OF assms j] ne
        by simp
    qed
  qed
  show "set (inversePermutation P) = {0..<n}"
  proof
    show "set (inversePermutation P) \<subseteq> {0..<n}"
      using inversePermutation_nth(3) [OF assms] leni
      by (auto simp: in_set_conv_nth)
    show "{0..<n} \<subseteq> set (inversePermutation P)"
    proof
      fix i assume "i \<in> {0..<n}"
      then have i: "i < n" by simp
      then have "P ! i < n" using assms(2) len nth_mem [of i P] by auto
      then have "inversePermutation P ! (P ! i) \<in> set (inversePermutation P)"
        using leni by simp
      then show "i \<in> set (inversePermutation P)"
        using inversePermutation_of_nth [OF assms i] by simp
    qed
  qed
qed

lemma inversePermutation_involution:
  assumes "distinct P" "set P = {0..<n}"
  shows "inversePermutation (inversePermutation P) = P"
proof (rule nth_equalityI)
  have len: "length P = n" by (rule permutation_length [OF assms])
  show "length (inversePermutation (inversePermutation P)) = length P"
    by (simp add: length_inversePermutation)
  fix i assume "i < length (inversePermutation (inversePermutation P))"
  then have i: "i < n" by (simp add: length_inversePermutation len)
  note inv = inversePermutation_permutation [OF assms]
  have pi: "P ! i < n" using assms(2) len i nth_mem [of i P] by auto
  have "inversePermutation (inversePermutation P) ! i = indexOf (inversePermutation P) i"
    by (rule inversePermutation_nth(1) [OF inv i])
  also have "\<dots> = indexOf (inversePermutation P) (inversePermutation P ! (P ! i))"
    by (simp add: inversePermutation_of_nth [OF assms i])
  also have "\<dots> = P ! i"
    using inv(1) pi by (simp add: indexOf_of_nth length_inversePermutation len)
  finally show "inversePermutation (inversePermutation P) ! i = P ! i" .
qed

section \<open>Permuted\<close>

lemma Permuted_map:
  assumes "distinct P" "set P = {0..<n}" "length s = n"
  shows "Permuted s P = map ((!) s) P"
proof (cases "P = []")
  case True
  with assms show ?thesis by (simp add: Permuted_def)
next
  case False
  then show ?thesis by (simp add: Permuted_def)
qed

lemma length_Permuted:
  assumes "distinct P" "set P = {0..<n}" "length s = n"
  shows "length (Permuted s P) = n"
  by (simp add: Permuted_map [OF assms] permutation_length [OF assms(1,2)])

lemma Permuted_nth:
  assumes "distinct P" "set P = {0..<n}" "length s = n" "i < n"
  shows "Permuted s P ! i = s ! (P ! i)"
  using assms(4) by (simp add: Permuted_map [OF assms(1-3)] permutation_length [OF assms(1,2)])

lemma Permuted_inverse:
  assumes "distinct P" "set P = {0..<n}" "length s = n"
  shows "Permuted (Permuted s P) (inversePermutation P) = s"
proof (rule nth_equalityI)
  note inv = inversePermutation_permutation [OF assms(1,2)]
  note lp = length_Permuted [OF assms]
  show "length (Permuted (Permuted s P) (inversePermutation P)) = length s"
    by (simp add: length_Permuted [OF inv lp] assms(3))
  fix k assume "k < length (Permuted (Permuted s P) (inversePermutation P))"
  then have k: "k < n" by (simp add: length_Permuted [OF inv lp])
  have "Permuted (Permuted s P) (inversePermutation P) ! k = Permuted s P ! (inversePermutation P ! k)"
    by (rule Permuted_nth [OF inv lp k])
  also have "\<dots> = s ! (P ! (inversePermutation P ! k))"
    by (rule Permuted_nth [OF assms inversePermutation_nth(3) [OF assms(1,2) k]])
  also have "\<dots> = s ! k"
    by (simp add: inversePermutation_nth(2) [OF assms(1,2) k])
  finally show "Permuted (Permuted s P) (inversePermutation P) ! k = s ! k" .
qed

lemma Permuted_inverse':
  assumes "distinct P" "set P = {0..<n}" "length s = n"
  shows "Permuted (Permuted s (inversePermutation P)) P = s"
  using Permuted_inverse [OF inversePermutation_permutation [OF assms(1,2)] assms(3)]
  by (simp add: inversePermutation_involution [OF assms(1,2)])

lemma Permuted_valid:
  assumes "distinct P" "set P = {0..<n}" "list_all2 (<) s A" "length A = n"
  shows "list_all2 (<) (Permuted s P) (Permuted A P)"
proof -
  have ls: "length s = n" using assms(3,4) by (simp add: list_all2_lengthD)
  have "s ! i < A ! i" if "i \<in> set P" for i
    using that assms(2,3,4) by (simp add: list_all2_nthD2)
  then show ?thesis
    by (simp add: Permuted_map [OF assms(1,2) ls] Permuted_map [OF assms(1,2,4)]
        list_all2_map1 list_all2_map2 list_all2_same)
qed

lemma map_Permuted:
  assumes "distinct P" "set P = {0..<n}" "length s = n"
  shows "map f (Permuted s P) = Permuted (map f s) P"
proof -
  have "f (s ! i) = map f s ! i" if "i \<in> set P" for i
    using that assms(2,3) by simp
  then show ?thesis
    using Permuted_map [OF assms] Permuted_map [OF assms(1,2), of "map f s"] assms(3)
    by simp
qed

lemma prod_list_Permuted:
  assumes "distinct P" "set P = {0..<n}" "length (A :: nat list) = n"
  shows "prod_list (Permuted A P) = prod_list A"
proof -
  have "mset P = mset [0..<n]"
    by (metis assms(1,2) distinct_upt set_upt set_eq_iff_mset_eq_distinct)
  then have "mset (map ((!) A) P) = mset (map ((!) A) [0..<n])"
    by (metis mset_map)
  also have "map ((!) A) [0..<n] = A"
    using assms(3) map_nth [of A] by simp
  finally have "prod_mset (mset (Permuted A P)) = prod_mset (mset A)"
    by (simp add: Permuted_map [OF assms])
  then show ?thesis
    by (simp add: prod_mset_prod_list)
qed

section \<open>Permute\<close>

lemma length_Permute: "length (Permute dstShape P src dst) = length dst"
  by (simp add: Permute_def Let_def fold_update_length)

lemma Permute_nth:
  assumes P: "distinct P" "set P = {0..<n}"
    and len: "length dstShape = n"
    and dst: "length dst = prod_list (map unat dstShape)"
    and s: "list_all2 (<) s (Permuted (map unat dstShape) (inversePermutation P))"
  shows "Permute dstShape P src dst ! flatOffset (map unat dstShape) (Permuted s P) =
           src ! flatOffset (Permuted (map unat dstShape) (inversePermutation P)) s"
proof -
  let ?D = "map unat dstShape"
  let ?S = "Permuted ?D (inversePermutation P)"
  let ?key = "\<lambda>s. flatOffset ?D (Permuted s P)"
  note inv = inversePermutation_permutation [OF P]
  have lD: "length ?D = n" using len by simp
  have lS: "length ?S = n" by (rule length_Permuted [OF inv lD])
  have undo: "Permuted ?S P = ?D" by (rule Permuted_inverse' [OF P lD])
  have valid: "list_all2 (<) (Permuted t P) ?D" if "list_all2 (<) t ?S" for t
    using Permuted_valid [OF P that lS] undo by simp
  have inj: "inj_on ?key (set (multiIndices ?S))"
  proof (rule inj_onI)
    fix t u
    assume "t \<in> set (multiIndices ?S)" "u \<in> set (multiIndices ?S)" and eq: "?key t = ?key u"
    then have t: "list_all2 (<) t ?S" and u: "list_all2 (<) u ?S"
      by (simp_all add: multiIndices_set)
    have lt: "length t = n" and lu: "length u = n"
      using t u lS by (simp_all add: list_all2_lengthD)
    have "Permuted t P = Permuted u P"
      by (rule flatOffset_inj [OF valid [OF t] valid [OF u] eq])
    then have "Permuted (Permuted t P) (inversePermutation P) = Permuted (Permuted u P) (inversePermutation P)"
      by simp
    then show "t = u"
      by (simp add: Permuted_inverse [OF P lt] Permuted_inverse [OF P lu])
  qed
  have mem: "s \<in> set (multiIndices ?S)"
    using s by (simp add: multiIndices_set)
  have "?key s < length dst"
    using flatOffset_less [OF valid [OF s]] dst by simp
  from fold_update_nth [of ?key "multiIndices ?S" s dst "\<lambda>s. src ! flatOffset ?S s", OF inj mem this]
  show ?thesis
    by (simp add: Permute_def Let_def)
qed

section \<open>Claims about SwizzleAndroidNn4dTensorToArmNn\<close>

text \<open>The rules that evaluate a permuted copy on concrete buffers.\<close>

lemmas permute_eval =
  SwizzleAndroidNn4dTensorToArmNn_T_def Permute_def Permuted_def inversePermutation_def
  upt_conv_Cons Let_def

text \<open>
  C3. As claimed, with the 32-bit signed integer type in the supported set, this fails:
  the \<open>switch\<close> has cases for \<open>Float32\<close> and \<open>QuantisedAsymm8\<close> only. What
  holds: applied to a rank-4 tensor, \<open>SwizzleAndroidNn4dTensorToArmNn\<close> reports the
  unsupported type (the warning is logged, the assertion fails where assertions are
  compiled in, the destination is left as it was) exactly when the data type is neither
  \<open>Float32\<close> nor \<open>QuantisedAsymm8\<close>, and for these two it performs the permuted
  copy, over 32-bit and over 8-bit elements.
\<close>

theorem Swizzle_element_types:
  assumes "length (shape tensor) = 4"
  shows "(fst (SwizzleAndroidNn4dTensorToArmNn assertsEnabled world tensor input output mappings) =
            ALOGW world ''Unknown armnn::DataType for swizzling''
          \<longleftrightarrow> dataType tensor \<notin> {Float32, QuantisedAsymm8}) \<and>
         (dataType tensor \<notin> {Float32, QuantisedAsymm8} \<longrightarrow>
            SwizzleAndroidNn4dTensorToArmNn assertsEnabled world tensor input output mappings =
              (ALOGW world ''Unknown armnn::DataType for swizzling'', output,
               if assertsEnabled then Some AssertionFailed else None)) \<and>
         (dataType tensor = Float32 \<longrightarrow>
            SwizzleAndroidNn4dTensorToArmNn assertsEnabled world tensor input output mappings =
              (world,
               store_word32s
                 (SwizzleAndroidNn4dTensorToArmNn_T (shape tensor) (load_word32s input)
                    (load_word32s output) mappings)
                 output,
               None)) \<and>
         (dataType tensor = QuantisedAsymm8 \<longrightarrow>
            SwizzleAndroidNn4dTensorToArmNn assertsEnabled world tensor input output mappings =
              (world, SwizzleAndroidNn4dTensorToArmNn_T (shape tensor) input output mappings, None))"
proof -
  have "logcat (ALOGW world msg) \<noteq> logcat world" for msg
    by (simp add: ALOGW_def)
  then have ne: "world \<noteq> ALOGW world msg" for msg
    by metis
  show ?thesis
    using assms ne DataType_distinct
    by (auto simp: SwizzleAndroidNn4dTensorToArmNn_def)
qed

theorem Swizzle_element_types_witness:
  "length (shape (swizzleInfo QuantisedAsymm8)) = 4 \<and>
   SwizzleAndroidNn4dTensorToArmNn True exampleWorld (swizzleInfo QuantisedAsymm8)
       [1, 2, 3, 4] [0, 0, 0, 0] [0, 1, 3, 2] =
     (exampleWorld, [1, 3, 2, 4], None) \<and>
   SwizzleAndroidNn4dTensorToArmNn True exampleWorld (swizzleInfo Float32)
       swizzleInput swizzleOutput [0, 1, 3, 2] =
     (exampleWorld, [1, 0, 0, 0, 3, 0, 0, 0, 2, 0, 0, 0, 4, 0, 0, 0], None) \<and>
   SwizzleAndroidNn4dTensorToArmNn True exampleWorld (swizzleInfo 7)
       [1, 2, 3, 4] [0, 0, 0, 0] [0, 1, 3, 2] =
     (exampleWorld\<lparr>logcat := [(Warning, ''Unknown armnn::DataType for swizzling'')]\<rparr>,
      [0, 0, 0, 0], Some AssertionFailed)"
proof -
  have r: "length (shape (swizzleInfo dt)) = 4" for dt
    by (simp add: swizzleInfo_def)
  have q: "dataType (swizzleInfo QuantisedAsymm8) = QuantisedAsymm8"
    and f: "dataType (swizzleInfo Float32) = Float32"
    and u: "dataType (swizzleInfo 7) \<notin> {Float32, QuantisedAsymm8}"
    by (simp_all add: swizzleInfo_def Float32_def QuantisedAsymm8_def)
  have copyq: "SwizzleAndroidNn4dTensorToArmNn_T (shape (swizzleInfo QuantisedAsymm8))
      [1, 2, 3, 4 :: uint8] [0, 0, 0, 0] [0, 1, 3, 2] = [1, 3, 2, 4]"
    by (simp add: swizzleInfo_def permute_eval)
  have ld: "load_word32s swizzleInput = [1, 2, 3, 4]" "load_word32s swizzleOutput = [0, 0, 0, 0]"
    by (simp_all add: load_word32s_def swizzleInput_def swizzleOutput_def word32_at_def
        word32_of_bytes_def upt_conv_Cons)
  have swz: "SwizzleAndroidNn4dTensorToArmNn_T (shape (swizzleInfo Float32))
      (load_word32s swizzleInput) (load_word32s swizzleOutput) [0, 1, 3, 2] = [1, 3, 2, 4]"
    by (simp add: ld swizzleInfo_def permute_eval)
  have copyf: "store_word32s (SwizzleAndroidNn4dTensorToArmNn_T (shape (swizzleInfo Float32))
      (load_word32s swizzleInput) (load_word32s swizzleOutput) [0, 1, 3, 2]) swizzleOutput =
      [1, 0, 0, 0, 3, 0, 0, 0, 2, 0, 0, 0, 4, 0, 0, 0]"
    by (simp only: swz) (simp add: store_word32s_def bytes_of_word32_def swizzleOutput_def)
  show ?thesis
    using Swizzle_element_types [of "swizzleInfo QuantisedAsymm8" True exampleWorld "[1, 2, 3, 4]" "[0, 0, 0, 0]" "[0, 1, 3, 2]", OF r]
      Swizzle_element_types [of "swizzleInfo Float32" True exampleWorld swizzleInput swizzleOutput "[0, 1, 3, 2]", OF r]
      Swizzle_element_types [of "swizzleInfo 7" True exampleWorld "[1, 2, 3, 4]" "[0, 0, 0, 0]" "[0, 1, 3, 2]", OF r]
      r q f u copyq copyf
    by (simp add: ALOGW_def exampleWorld_def)
qed

text \<open>
  The claim fails at a rank-4 \<open>Signed32\<close> tensor: the type is in the claimed set, yet the
  call logs the warning and leaves the destination as it was, with and without assertions,
  where a permuted copy of the four 32-bit elements would have changed it.
\<close>

theorem Swizzle_Signed32_counterexample:
  "Signed32 \<in> {Float32, QuantisedAsymm8, Signed32} \<and>
   length (shape (swizzleInfo Signed32)) = 4 \<and>
   SwizzleAndroidNn4dTensorToArmNn True exampleWorld (swizzleInfo Signed32)
       swizzleInput swizzleOutput [0, 1, 3, 2] =
     (exampleWorld\<lparr>logcat := [(Warning, ''Unknown armnn::DataType for swizzling'')]\<rparr>,
      swizzleOutput, Some AssertionFailed) \<and>
   SwizzleAndroidNn4dTensorToArmNn False exampleWorld (swizzleInfo Signed32)
       swizzleInput swizzleOutput [0, 1, 3, 2] =
     (exampleWorld\<lparr>logcat := [(Warning, ''Unknown armnn::DataType for swizzling'')]\<rparr>,
      swizzleOutput, None) \<and>
   store_word32s
     (SwizzleAndroidNn4dTensorToArmNn_T (shape (swizzleInfo Signed32)) (load_word32s swizzleInput)
        (load_word32s swizzleOutput) [0, 1, 3, 2])
     swizzleOutput \<noteq> swizzleOutput"
proof -
  have ld: "load_word32s swizzleInput = [1, 2, 3, 4]" "load_word32s swizzleOutput = [0, 0, 0, 0]"
    by (simp_all add: load_word32s_def swizzleInput_def swizzleOutput_def word32_at_def
        word32_of_bytes_def upt_conv_Cons)
  have swz: "SwizzleAndroidNn4dTensorToArmNn_T (shape (swizzleInfo Signed32))
      (load_word32s swizzleInput) (load_word32s swizzleOutput) [0, 1, 3, 2] = [1, 3, 2, 4]"
    by (simp add: ld swizzleInfo_def permute_eval)
  have copy: "store_word32s (SwizzleAndroidNn4dTensorToArmNn_T (shape (swizzleInfo Signed32))
      (load_word32s swizzleInput) (load_word32s swizzleOutput) [0, 1, 3, 2]) swizzleOutput =
      [1, 0, 0, 0, 3, 0, 0, 0, 2, 0, 0, 0, 4, 0, 0, 0]"
    by (simp only: swz) (simp add: store_word32s_def bytes_of_word32_def swizzleOutput_def)
  have a: "Signed32 \<in> {Float32, QuantisedAsymm8, Signed32}"
    by simp
  have b: "length (shape (swizzleInfo Signed32)) = 4"
    by (simp add: swizzleInfo_def)
  have c: "SwizzleAndroidNn4dTensorToArmNn assertsEnabled exampleWorld (swizzleInfo Signed32)
       swizzleInput swizzleOutput [0, 1, 3, 2] =
     (exampleWorld\<lparr>logcat := [(Warning, ''Unknown armnn::DataType for swizzling'')]\<rparr>,
      swizzleOutput, if assertsEnabled then Some AssertionFailed else None)" for assertsEnabled
    by (simp add: SwizzleAndroidNn4dTensorToArmNn_def swizzleInfo_def
          Float32_def QuantisedAsymm8_def Signed32_def ALOGW_def exampleWorld_def)
  have d: "store_word32s
     (SwizzleAndroidNn4dTensorToArmNn_T (shape (swizzleInfo Signed32)) (load_word32s swizzleInput)
        (load_word32s swizzleOutput) [0, 1, 3, 2])
     swizzleOutput \<noteq> swizzleOutput"
    by (simp only: copy) (simp add: swizzleOutput_def)
  show ?thesis
    using a b c [of True] c [of False] d by simp
qed

text \<open>
  C4. Permuting a tensor by a permutation vector that is a bijection over its rank, and
  then permuting the result by the inverse permutation vector, gives back the shape and
  the elements of the tensor. The buffers are those of
  \<open>SwizzleAndroidNn4dTensorToArmNn<T>\<close>: the input holds one element per multi-index
  of the shape, and each destination buffer is as long.
\<close>

theorem Swizzle_round_trip:
  assumes "distinct mappings" "set mappings = {0..<length inTensorShape}"
    and "length input = prod_list (map unat inTensorShape)"
    and "length output = length input" "length output' = length input"
  shows "Permuted (Permuted inTensorShape mappings) (inversePermutation mappings) = inTensorShape \<and>
         SwizzleAndroidNn4dTensorToArmNn_T (Permuted inTensorShape mappings)
           (SwizzleAndroidNn4dTensorToArmNn_T inTensorShape input output mappings)
           output' (inversePermutation mappings) = input"
proof -
  let ?n = "length inTensorShape"
  let ?P = mappings
  let ?Q = "inversePermutation mappings"
  let ?A = "map unat inTensorShape"
  let ?shape1 = "Permuted inTensorShape ?P"
  let ?B = "map unat ?shape1"
  let ?mid = "Permute ?shape1 ?P input output"
  let ?shape2 = "Permuted ?shape1 ?Q"
  let ?fin = "Permute ?shape2 ?Q ?mid output'"
  note P = assms(1,2)
  note Q = inversePermutation_permutation [OF P]
  have QQ: "inversePermutation ?Q = ?P" by (rule inversePermutation_involution [OF P])
  have lA: "length ?A = ?n" by simp
  have B: "?B = Permuted ?A ?P" by (rule map_Permuted [OF P refl])
  have l1: "length ?shape1 = ?n" by (rule length_Permuted [OF P refl])
  have lB: "length ?B = ?n" using l1 by simp
  have shape2: "?shape2 = inTensorShape" by (rule Permuted_inverse [OF P refl])
  have srcA: "Permuted ?B ?Q = ?A" unfolding B by (rule Permuted_inverse [OF P lA])
  have prodB: "prod_list ?B = prod_list ?A" unfolding B by (rule prod_list_Permuted [OF P lA])
  have lmid: "length output = prod_list ?B" using assms(3,4) prodB by simp
  have mid: "?mid ! flatOffset ?B (Permuted s ?P) = input ! flatOffset ?A s"
    if "list_all2 (<) s ?A" for s
    using Permute_nth [OF P l1 lmid, of s input] that srcA by simp
  have lfin: "length output' = prod_list (map unat ?shape2)"
    using assms(3,5) shape2 by simp
  have fin: "?fin ! flatOffset ?A (Permuted u ?Q) = ?mid ! flatOffset ?B u"
    if "list_all2 (<) u ?B" for u
  proof -
    have "Permuted (map unat ?shape2) (inversePermutation ?Q) = ?B"
      by (simp add: shape2 QQ B)
    with Permute_nth [OF Q, of ?shape2 output' u ?mid] lfin that shape2
    show ?thesis by simp
  qed
  have "?fin = input"
  proof (rule nth_equalityI)
    show "length ?fin = length input"
      using assms(5) by (simp add: length_Permute)
    fix k assume "k < length ?fin"
    then have "k < prod_list ?A"
      using assms(3,5) by (simp add: length_Permute)
    from flatOffset_surj [OF this] obtain s where s: "list_all2 (<) s ?A" "flatOffset ?A s = k"
      by blast
    have ls: "length s = ?n" using s(1) by (simp add: list_all2_lengthD)
    have u: "list_all2 (<) (Permuted s ?P) ?B"
      unfolding B by (rule Permuted_valid [OF P s(1) lA])
    have "?fin ! flatOffset ?A (Permuted (Permuted s ?P) ?Q) = ?mid ! flatOffset ?B (Permuted s ?P)"
      by (rule fin [OF u])
    also have "\<dots> = input ! flatOffset ?A s"
      by (rule mid [OF s(1)])
    finally show "?fin ! k = input ! k"
      using s(2) by (simp add: Permuted_inverse [OF P ls])
  qed
  then show ?thesis
    using shape2 by (simp add: SwizzleAndroidNn4dTensorToArmNn_T_def)
qed

theorem Swizzle_round_trip_witness:
  "distinct [1, 0 :: nat] \<and> set [1, 0 :: nat] = {0..<length [2, 3 :: uint32]} \<and>
   length [10, 11, 12, 13, 14, 15 :: uint8] = prod_list (map unat [2, 3 :: uint32]) \<and>
   Permuted (Permuted [2, 3 :: uint32] [1, 0]) (inversePermutation [1, 0]) = [2, 3] \<and>
   SwizzleAndroidNn4dTensorToArmNn_T [2, 3] [10, 11, 12, 13, 14, 15 :: uint8] [0, 0, 0, 0, 0, 0] [1, 0] =
     [10, 13, 11, 14, 12, 15] \<and>
   SwizzleAndroidNn4dTensorToArmNn_T (Permuted [2, 3] [1, 0])
     (SwizzleAndroidNn4dTensorToArmNn_T [2, 3] [10, 11, 12, 13, 14, 15 :: uint8] [0, 0, 0, 0, 0, 0] [1, 0])
     [0, 0, 0, 0, 0, 0] (inversePermutation [1, 0]) = [10, 11, 12, 13, 14, 15]"
proof -
  have h1: "distinct [1, 0 :: nat]" by simp
  have h2: "set [1, 0 :: nat] = {0..<length [2, 3 :: uint32]}" by auto
  have h3: "length [10, 11, 12, 13, 14, 15 :: uint8] = prod_list (map unat [2, 3 :: uint32])" by simp
  have h4: "length [0, 0, 0, 0, 0, 0 :: uint8] = length [10, 11, 12, 13, 14, 15 :: uint8]" by simp
  have mid: "SwizzleAndroidNn4dTensorToArmNn_T [2, 3] [10, 11, 12, 13, 14, 15 :: uint8] [0, 0, 0, 0, 0, 0] [1, 0] =
     [10, 13, 11, 14, 12, 15]"
    by (simp add: permute_eval)
  from Swizzle_round_trip [OF h1 h2 h3 h4 h4] h1 h2 h3 mid show ?thesis
    by simp
qed

end
